theory Spec2Isabelle
  imports Main
begin

section \<open>Data model (main.go, lines 16-28)\<close>

text \<open>
  The two structs of the program. Go strings are byte sequences, modelled as
  \<open>string\<close>. The \<open>ID\<close> of a user is a Go \<open>int\<close>; the program never computes with
  it (it is only copied from a scanned row into the JSON output), so it is an \<open>int\<close>.
\<close>

record Config =
  DBUsername :: string
  DBPassword :: string
  DBHost :: string
  DBPort :: string
  DBName :: string

record User =
  ID :: int
  FirstName :: string
  LastName :: string

text \<open>The zero value of \<open>Config\<close>, which \<open>var config Config\<close> declares.\<close>

definition zero_Config :: Config where
  "zero_Config =
     \<lparr>DBUsername = [], DBPassword = [], DBHost = [], DBPort = [], DBName = []\<rparr>"

section \<open>The response writer of net/http\<close>

text \<open>
  A \<open>http.ResponseWriter\<close> as the handlers use it: the header map, the status code
  once it has been written (\<open>None\<close> before), and the bytes of the body so far.
  \<open>WriteHeader\<close> takes effect once; the first \<open>Write\<close> without a status writes 200.
  Header names are used in canonical form throughout the program. The headers
  that the server adds by itself when it sends the response (the date, the
  length, a content type found by sniffing) are not part of the model.
\<close>

record ResponseWriter =
  Header :: "(string \<times> string) list"
  wroteHeader :: "nat option"
  written :: string

definition new_ResponseWriter :: ResponseWriter where
  "new_ResponseWriter = \<lparr>Header = [], wroteHeader = None, written = []\<rparr>"

definition Header_Del :: "string \<Rightarrow> ResponseWriter \<Rightarrow> ResponseWriter" where
  "Header_Del k w = w\<lparr>Header := filter (\<lambda>p. fst p \<noteq> k) (Header w)\<rparr>"

definition Header_Set :: "string \<Rightarrow> string \<Rightarrow> ResponseWriter \<Rightarrow> ResponseWriter" where
  "Header_Set k v w = w\<lparr>Header := (k, v) # filter (\<lambda>p. fst p \<noteq> k) (Header w)\<rparr>"

definition Header_Get :: "string \<Rightarrow> ResponseWriter \<Rightarrow> string option" where
  "Header_Get k w = map_of (Header w) k"

definition WriteHeader :: "nat \<Rightarrow> ResponseWriter \<Rightarrow> ResponseWriter" where
  "WriteHeader code w =
     (case wroteHeader w of
        None \<Rightarrow> w\<lparr>wroteHeader := Some code\<rparr>
      | Some c \<Rightarrow> w)"

definition Write :: "string \<Rightarrow> ResponseWriter \<Rightarrow> ResponseWriter" where
  "Write bs w =
     (let w' = (case wroteHeader w of None \<Rightarrow> w\<lparr>wroteHeader := Some 200\<rparr> | Some c \<Rightarrow> w)
      in w'\<lparr>written := written w' @ bs\<rparr>)"

text \<open>\<open>fmt.Fprintln(w, s)\<close> writes the operand followed by a newline.\<close>

definition newline :: string where
  "newline = [CHR 0x0A]"

definition Fprintln :: "ResponseWriter \<Rightarrow> string \<Rightarrow> ResponseWriter" where
  "Fprintln w s = Write (s @ newline) w"

text \<open>
  What the client receives: the status written, or 200 when the handler returned
  without writing one, and the bytes of the body.
\<close>

definition StatusCode :: "ResponseWriter \<Rightarrow> nat" where
  "StatusCode w = (case wroteHeader w of None \<Rightarrow> 200 | Some c \<Rightarrow> c)"

definition ResponseBody :: "ResponseWriter \<Rightarrow> string" where
  "ResponseBody w = written w"

text \<open>
  \<open>http.Error(w, error, code)\<close>: plain-text headers, the status, and the message as
  a line of the body.
\<close>

definition http_Error :: "ResponseWriter \<Rightarrow> string \<Rightarrow> nat \<Rightarrow> ResponseWriter" where
  "http_Error w err code =
     Fprintln
       (WriteHeader code
         (Header_Set ''X-Content-Type-Options'' ''nosniff''
           (Header_Set ''Content-Type'' ''text/plain; charset=utf-8''
             (Header_Del ''Content-Length'' w))))
       err"

text \<open>
  \<open>http.Redirect(w, r, url, code)\<close> for a target that is already an absolute,
  clean ASCII path (the program only ever redirects to \<open>/\<close>, which the url
  cleaning of \<open>http.Redirect\<close> leaves as it is). A short HTML body is written for a
  GET request only. \<open>StatusText\<close> is given for the codes this program uses.
\<close>

record Request =
  Method :: string
  Path :: string
  RawQuery :: string
  ContentType :: string
  Body :: string

definition htmlEscape_char :: "char \<Rightarrow> string" where
  "htmlEscape_char c =
     (if c = CHR ''&'' then ''&amp;''
      else if c = CHR ''<'' then ''&lt;''
      else if c = CHR ''>'' then ''&gt;''
      else if c = CHR 0x22 then ''&#34;''
      else if c = CHR 0x27 then ''&#39;''
      else [c])"

definition htmlEscape :: "string \<Rightarrow> string" where
  "htmlEscape s = concat (map htmlEscape_char s)"

definition StatusText :: "nat \<Rightarrow> string" where
  "StatusText code =
     (if code = 200 then ''OK''
      else if code = 201 then ''Created''
      else if code = 303 then ''See Other''
      else if code = 400 then ''Bad Request''
      else if code = 500 then ''Internal Server Error''
      else if code = 503 then ''Service Unavailable''
      else [])"

definition http_Redirect :: "ResponseWriter \<Rightarrow> Request \<Rightarrow> string \<Rightarrow> nat \<Rightarrow> ResponseWriter" where
  "http_Redirect w r url code =
     (let hadCT = (case Header_Get ''Content-Type'' w of None \<Rightarrow> False | Some v \<Rightarrow> True);
          w1 = Header_Set ''Location'' url w;
          w2 = (if hadCT then w1
                else if Method r = ''GET'' \<or> Method r = ''HEAD''
                then Header_Set ''Content-Type'' ''text/html; charset=utf-8'' w1
                else w1);
          w3 = WriteHeader code w2
      in if hadCT then w3
         else if Method r = ''GET''
         then Fprintln w3
                (''<a href='' @ [CHR 0x22] @ htmlEscape url @ [CHR 0x22] @ ''>''
                   @ StatusText code @ ''</a>.'' @ newline)
         else w3)"

section \<open>External collaborators\<close>

text \<open>
  The database handle. The driver is not part of the program: what a statement
  returns and how it changes the connection is a parameter (\<open>sql_Exec\<close>, \<open>sql_Query\<close>,
  \<open>sql_Ping\<close> below). The handle records every statement the program issues, in
  order, so that "issues no statement" and "issues exactly this insert" can be stated.
\<close>

datatype db_call = ExecCall string "string list" | QueryCall string | PingCall

record 'd DB =
  conn :: 'd
  calls :: "db_call list"

text \<open>
  The library functions the handlers call, as parameters. An error is its text
  (\<open>err.Error()\<close>); a function that returns \<open>error\<close> alone returns \<open>None\<close> for \<open>nil\<close>.
  \<^item> \<open>sql_Exec query args\<close>, \<open>sql_Ping\<close>: the error, and the connection afterwards.
  \<^item> \<open>sql_Query query\<close>: the error of \<open>db.Query\<close>, or the rows that \<open>rows.Next\<close>
    yields in order, each with what \<open>rows.Scan\<close> returns for it: an error, or the
    three columns as a \<open>User\<close>.
  \<^item> \<open>json_Decode body\<close>: what \<open>json.NewDecoder(r.Body).Decode(&user)\<close> returns, and
    \<open>user\<close> afterwards on success.
  \<^item> \<open>json_Marshal_User\<close>: the JSON object of one user.
  \<^item> \<open>request_ParseForm r\<close>: the error of \<open>r.ParseForm()\<close> and \<open>r.Form\<close> afterwards
    (\<open>ParseForm\<close> sets \<open>r.Form\<close> also when it returns an error).
  \<^item> \<open>template_Parse src\<close>: parsing the text of a template file;
    \<open>template_Execute t\<close>: the bytes \<open>t.Execute(w, nil)\<close> writes.
\<close>

record ('d, 't) Lib =
  sql_Exec :: "string \<Rightarrow> string list \<Rightarrow> 'd \<Rightarrow> string option \<times> 'd"
  sql_Query :: "string \<Rightarrow> 'd \<Rightarrow> (string + (string + User) list) \<times> 'd"
  sql_Ping :: "'d \<Rightarrow> string option \<times> 'd"
  json_Decode :: "string \<Rightarrow> string + User"
  json_Marshal_User :: "User \<Rightarrow> string"
  request_ParseForm :: "Request \<Rightarrow> string option \<times> (string \<Rightarrow> string list)"
  template_Parse :: "string \<Rightarrow> string + 't"
  template_Execute :: "'t \<Rightarrow> string"

definition db_Exec :: "('d, 't) Lib \<Rightarrow> string \<Rightarrow> string list \<Rightarrow> 'd DB \<Rightarrow> string option \<times> 'd DB" where
  "db_Exec lib query args db =
     (case sql_Exec lib query args (conn db) of
        (res, c) \<Rightarrow> (res, \<lparr>conn = c, calls = calls db @ [ExecCall query args]\<rparr>))"

definition db_Query :: "('d, 't) Lib \<Rightarrow> string \<Rightarrow> 'd DB \<Rightarrow> (string + (string + User) list) \<times> 'd DB" where
  "db_Query lib query db =
     (case sql_Query lib query (conn db) of
        (res, c) \<Rightarrow> (res, \<lparr>conn = c, calls = calls db @ [QueryCall query]\<rparr>))"

definition db_Ping :: "('d, 't) Lib \<Rightarrow> 'd DB \<Rightarrow> string option \<times> 'd DB" where
  "db_Ping lib db =
     (case sql_Ping lib (conn db) of
        (res, c) \<Rightarrow> (res, \<lparr>conn = c, calls = calls db @ [PingCall]\<rparr>))"

text \<open>
  The disk: a path has no file (\<open>None\<close>), a file that cannot be read (\<open>Inl\<close> the
  error), or a file with its content.
\<close>

type_synonym Disk = "string \<Rightarrow> (string + string) option"

definition os_ReadFile :: "Disk \<Rightarrow> string \<Rightarrow> string + string" where
  "os_ReadFile disk name =
     (case disk name of
        None \<Rightarrow> Inl (''open '' @ name @ '': no such file or directory'')
      | Some f \<Rightarrow> f)"

definition template_ParseFiles :: "('d, 't) Lib \<Rightarrow> Disk \<Rightarrow> string \<Rightarrow> string + 't" where
  "template_ParseFiles lib disk name =
     (case os_ReadFile disk name of
        Inl err \<Rightarrow> Inl err
      | Inr src \<Rightarrow> template_Parse lib src)"

text \<open>
  A Go slice is \<open>nil\<close> (\<open>None\<close>) or holds elements; \<open>append\<close> to a \<open>nil\<close> slice gives a
  slice that is not \<open>nil\<close>. \<open>encoding/json\<close> writes a \<open>nil\<close> slice as \<open>null\<close> and any
  other slice as an array; \<open>Encoder.Encode\<close> ends the value with a newline.
\<close>

definition append_slice :: "'a list option \<Rightarrow> 'a \<Rightarrow> 'a list option" where
  "append_slice s x = (case s of None \<Rightarrow> Some [x] | Some xs \<Rightarrow> Some (xs @ [x]))"

fun join_comma :: "string list \<Rightarrow> string" where
  "join_comma [] = []"
| "join_comma [x] = x"
| "join_comma (x # y # zs) = x @ '','' @ join_comma (y # zs)"

definition json_Marshal_slice :: "('a \<Rightarrow> string) \<Rightarrow> 'a list option \<Rightarrow> string" where
  "json_Marshal_slice enc s =
     (case s of
        None \<Rightarrow> ''null''
      | Some xs \<Rightarrow> ''['' @ join_comma (map enc xs) @ '']'')"

definition json_Encode :: "('a \<Rightarrow> string) \<Rightarrow> ResponseWriter \<Rightarrow> 'a list option \<Rightarrow> ResponseWriter" where
  "json_Encode enc w s = Write (json_Marshal_slice enc s @ newline) w"

section \<open>The handlers (main.go, lines 106-201)\<close>

text \<open>
  A handler that closes over the database handle takes the handle and returns it
  with the response. \<open>showFormHandler\<close> can panic (\<open>template.Must\<close>), so the outcome
  of a handler is a response or a panic with its value.
\<close>

datatype Outcome = Responded ResponseWriter | Panicked string

definition insertQuery :: string where
  "insertQuery = ''INSERT INTO users (first_name, last_name) VALUES (?, ?)''"

definition createUserHandler ::
  "('d, 't) Lib \<Rightarrow> 'd DB \<Rightarrow> ResponseWriter \<Rightarrow> Request \<Rightarrow> ResponseWriter \<times> 'd DB" where
  "createUserHandler lib db w r =
     (case json_Decode lib (Body r) of
        Inl err \<Rightarrow> (http_Error w err 400, db)
      | Inr user \<Rightarrow>
          (case db_Exec lib insertQuery [FirstName user, LastName user] db of
             (Some err, db') \<Rightarrow> (http_Error w err 500, db')
           | (None, db') \<Rightarrow> (WriteHeader 201 w, db')))"

text \<open>The loop over the rows: the first \<open>Scan\<close> error ends the handler.\<close>

fun scan_rows :: "(string + User) list \<Rightarrow> User list option \<Rightarrow> string + User list option" where
  "scan_rows [] users = Inr users"
| "scan_rows (row # rest) users =
     (case row of
        Inl err \<Rightarrow> Inl err
      | Inr user \<Rightarrow> scan_rows rest (append_slice users user))"

definition getUsersHandler ::
  "('d, 't) Lib \<Rightarrow> 'd DB \<Rightarrow> ResponseWriter \<Rightarrow> Request \<Rightarrow> ResponseWriter \<times> 'd DB" where
  "getUsersHandler lib db w r =
     (case db_Query lib ''SELECT id, first_name, last_name FROM users'' db of
        (Inl err, db') \<Rightarrow> (http_Error w err 500, db')
      | (Inr rows, db') \<Rightarrow>
          (case scan_rows rows None of
             Inl err \<Rightarrow> (http_Error w err 500, db')
           | Inr users \<Rightarrow>
               (json_Encode (json_Marshal_User lib)
                  (Header_Set ''Content-Type'' ''application/json'' w) users, db')))"

definition showFormHandler ::
  "('d, 't) Lib \<Rightarrow> Disk \<Rightarrow> ResponseWriter \<Rightarrow> Request \<Rightarrow> Outcome" where
  "showFormHandler lib disk w r =
     (case template_ParseFiles lib disk ''form.html'' of
        Inl err \<Rightarrow> Panicked err
      | Inr tmpl \<Rightarrow> Responded (Write (template_Execute lib tmpl) w))"

definition FormValue :: "(string \<Rightarrow> string list) \<Rightarrow> string \<Rightarrow> string" where
  "FormValue form key = (case form key of [] \<Rightarrow> [] | v # vs \<Rightarrow> v)"

definition createHandler ::
  "('d, 't) Lib \<Rightarrow> 'd DB \<Rightarrow> ResponseWriter \<Rightarrow> Request \<Rightarrow> ResponseWriter \<times> 'd DB" where
  "createHandler lib db w r =
     (case request_ParseForm lib r of
        (parse_err, form) \<Rightarrow>
          (let firstName = FormValue form ''first_name'';
               lastName = FormValue form ''last_name''
           in case db_Exec lib insertQuery [firstName, lastName] db of
                (Some err, db') \<Rightarrow> (http_Error w err 500, db')
              | (None, db') \<Rightarrow> (http_Redirect w r ''/'' 303, db')))"

definition healthCheckHandler :: "ResponseWriter \<Rightarrow> Request \<Rightarrow> ResponseWriter" where
  "healthCheckHandler w r = Fprintln (WriteHeader 200 w) ''OK''"

definition readinessCheckHandler ::
  "('d, 't) Lib \<Rightarrow> 'd DB \<Rightarrow> ResponseWriter \<Rightarrow> Request \<Rightarrow> ResponseWriter \<times> 'd DB" where
  "readinessCheckHandler lib db w r =
     (case db_Ping lib db of
        (Some err, db') \<Rightarrow>
          (Fprintln (WriteHeader 503 w) ''Database is not available'', db')
      | (None, db') \<Rightarrow> (Fprintln (WriteHeader 200 w) ''OK'', db'))"

section \<open>The routes (main.go, lines 57-63)\<close>

text \<open>
  The six routes, in the order \<open>main\<close> registers them: a route matches a request
  with its path and its method. For a request that no route matches the router
  answers by itself, and no handler of the program runs (\<open>None\<close>).
  The server gives each request a new response writer; the database handle is the
  one opened at startup, shared by all requests, and the disk is read as it is at
  the time of the request.
\<close>

datatype Route = PostUsers | GetUsers | GetRoot | PostCreate | GetHealth | GetReadiness

definition route :: "Request \<Rightarrow> Route option" where
  "route r =
     (if Path r = ''/users'' \<and> Method r = ''POST'' then Some PostUsers
      else if Path r = ''/users'' \<and> Method r = ''GET'' then Some GetUsers
      else if Path r = ''/'' \<and> Method r = ''GET'' then Some GetRoot
      else if Path r = ''/create'' \<and> Method r = ''POST'' then Some PostCreate
      else if Path r = ''/health'' \<and> Method r = ''GET'' then Some GetHealth
      else if Path r = ''/readiness'' \<and> Method r = ''GET'' then Some GetReadiness
      else None)"

definition responded :: "ResponseWriter \<times> 'd DB \<Rightarrow> Outcome \<times> 'd DB" where
  "responded p = (Responded (fst p), snd p)"

fun handle ::
  "('d, 't) Lib \<Rightarrow> Disk \<Rightarrow> Route \<Rightarrow> 'd DB \<Rightarrow> ResponseWriter \<Rightarrow> Request \<Rightarrow> Outcome \<times> 'd DB" where
  "handle lib disk PostUsers db w r = responded (createUserHandler lib db w r)"
| "handle lib disk GetUsers db w r = responded (getUsersHandler lib db w r)"
| "handle lib disk GetRoot db w r = (showFormHandler lib disk w r, db)"
| "handle lib disk PostCreate db w r = responded (createHandler lib db w r)"
| "handle lib disk GetHealth db w r = (Responded (healthCheckHandler w r), db)"
| "handle lib disk GetReadiness db w r = responded (readinessCheckHandler lib db w r)"

definition serve ::
  "('d, 't) Lib \<Rightarrow> Disk \<Rightarrow> 'd DB \<Rightarrow> Request \<Rightarrow> (Outcome \<times> 'd DB) option" where
  "serve lib disk db r =
     (case route r of
        None \<Rightarrow> None
      | Some rt \<Rightarrow> Some (handle lib disk rt db new_ResponseWriter r))"

section \<open>Configuration (main.go, lines 76-89)\<close>

text \<open>
  The process environment maps a variable to its value, when it is set.
  \<open>os.Getenv\<close> gives the empty string for a variable that is not set; \<open>os.Setenv\<close>
  refuses an empty name, a name with \<open>=\<close> or a NUL byte, and a value with a NUL byte.
\<close>

type_synonym Environ = "string \<Rightarrow> string option"

definition os_Getenv :: "Environ \<Rightarrow> string \<Rightarrow> string" where
  "os_Getenv env key = (case env key of None \<Rightarrow> [] | Some v \<Rightarrow> v)"

definition os_Setenv :: "string \<Rightarrow> string \<Rightarrow> Environ \<Rightarrow> Environ" where
  "os_Setenv key v env =
     (if key = [] \<or> CHR ''='' \<in> set key \<or> CHR 0x00 \<in> set key \<or> CHR 0x00 \<in> set v
      then env
      else env(key \<mapsto> v))"

text \<open>
  \<open>godotenv.Load(filename)\<close>: read the file, parse it into a map of pairs (the
  parser is a parameter), and set every variable of the map that the environment
  does not have yet; the result of \<open>Setenv\<close> is dropped. An error of reading or of
  parsing is returned and leaves the environment as it was.
\<close>

definition godotenv_Load ::
  "(string \<Rightarrow> string + (string \<Rightarrow> string option)) \<Rightarrow> Disk \<Rightarrow> Environ \<Rightarrow> string
     \<Rightarrow> string option \<times> Environ" where
  "godotenv_Load parse disk env filename =
     (case os_ReadFile disk filename of
        Inl err \<Rightarrow> (Some err, env)
      | Inr src \<Rightarrow>
          (case parse src of
             Inl err \<Rightarrow> (Some err, env)
           | Inr envMap \<Rightarrow>
               (None,
                (\<lambda>key. case env key of
                          Some v \<Rightarrow> Some v
                        | None \<Rightarrow>
                            (case envMap key of
                               None \<Rightarrow> None
                             | Some v \<Rightarrow> os_Setenv key v env key)))))"

text \<open>\<open>loadConfig\<close> returns the configuration and the error; the environment is the one \<open>Load\<close> leaves.\<close>

definition loadConfig ::
  "(string \<Rightarrow> string + (string \<Rightarrow> string option)) \<Rightarrow> Disk \<Rightarrow> Environ
     \<Rightarrow> (Config \<times> string option) \<times> Environ" where
  "loadConfig parse disk env =
     (case godotenv_Load parse disk env ''.env'' of
        (None, env') \<Rightarrow>
          ((\<lparr>DBUsername = os_Getenv env' ''DB_USERNAME'',
             DBPassword = os_Getenv env' ''DB_PASSWORD'',
             DBHost = os_Getenv env' ''DB_HOST'',
             DBPort = os_Getenv env' ''DB_PORT'',
             DBName = os_Getenv env' ''DB_NAME''\<rparr>, None), env')
      | (Some err, env') \<Rightarrow> ((zero_Config, None), env'))"

section \<open>Logging setup (main.go, lines 31-40 and 173-183)\<close>

text \<open>
  The state of the \<open>log\<close> package: the writer its output goes to (standard error
  when the process starts), and the lines logged so far, each with the writer that
  received it (without the date and time that \<open>log\<close> puts in front).
  \<open>os.OpenFile\<close> is a parameter: for a path, flags and permission bits it gives an
  error or the open file. \<open>log.Fatal\<close> logs and exits with status 1.
\<close>

datatype OpenFlag = O_CREATE | O_WRONLY | O_APPEND

datatype 'f Writer = Stderr | Stdout | FileWriter 'f

record 'f Process =
  logOutput :: "'f Writer"
  logged :: "('f Writer \<times> string) list"

datatype 'f Run = Running "'f Process" | Exited nat "'f Process"

definition start_Process :: "'f Process" where
  "start_Process = \<lparr>logOutput = Stderr, logged = []\<rparr>"

definition log_Println :: "string \<Rightarrow> 'f Process \<Rightarrow> 'f Process" where
  "log_Println msg p = p\<lparr>logged := logged p @ [(logOutput p, msg)]\<rparr>"

definition log_Fatal :: "string \<Rightarrow> 'f Process \<Rightarrow> 'f Run" where
  "log_Fatal msg p = Exited 1 (log_Println msg p)"

definition log_SetOutput :: "'f Writer \<Rightarrow> 'f Process \<Rightarrow> 'f Process" where
  "log_SetOutput wr p = p\<lparr>logOutput := wr\<rparr>"

definition setupFileLogging ::
  "(string \<Rightarrow> OpenFlag set \<Rightarrow> nat \<Rightarrow> string + 'f) \<Rightarrow> 'f Process \<Rightarrow> 'f Run" where
  "setupFileLogging openFile p =
     (case openFile ''app.log'' {O_CREATE, O_WRONLY, O_APPEND} 438 of
        Inl err \<Rightarrow> log_Fatal (''Error opening log file:'' @ err) p
      | Inr logFile \<Rightarrow> Running (log_SetOutput (FileWriter logFile) p))"

definition setupStdoutLogging :: "'f Process \<Rightarrow> 'f Process" where
  "setupStdoutLogging p = log_SetOutput Stdout p"

text \<open>The switch at the start of \<open>main\<close>; 438 above is the permission 0666.\<close>

definition main_logging ::
  "(string \<Rightarrow> OpenFlag set \<Rightarrow> nat \<Rightarrow> string + 'f) \<Rightarrow> Environ \<Rightarrow> 'f Process \<Rightarrow> 'f Run" where
  "main_logging openFile env p =
     (let loggingDestination = os_Getenv env ''LOG_DESTINATION''
      in if loggingDestination = ''file'' then setupFileLogging openFile p
         else if loggingDestination = ''stdout'' then Running (setupStdoutLogging p)
         else Running (setupStdoutLogging
                (log_Println ''Invalid logging destination specified. Defaulting to stdout.'' p)))"

section \<open>Concrete inputs\<close>

text \<open>
  Instances of the parameters, for evaluating the program on concrete requests:
  a driver that keeps the table in memory and numbers the rows, a driver whose
  server is down, a decoder that knows a few bodies, a form parser that knows a
  few url-encoded bodies of POST requests without a query string, an encoder
  for users whose names need no escaping, and parsers for templates and for
  environment files that know a few texts.
\<close>

definition mem_Exec :: "string \<Rightarrow> string list \<Rightarrow> User list \<Rightarrow> string option \<times> User list" where
  "mem_Exec query args tbl =
     (case args of
        [f, l] \<Rightarrow>
          (None, tbl @ [\<lparr>ID = int (length tbl) + 1, FirstName = f, LastName = l\<rparr>])
      | _ \<Rightarrow> (Some ''sql: wrong number of arguments'', tbl))"

definition mem_Query :: "string \<Rightarrow> User list \<Rightarrow> (string + (string + User) list) \<times> User list" where
  "mem_Query query tbl = (Inr (map Inr tbl), tbl)"

definition mem_Ping :: "User list \<Rightarrow> string option \<times> User list" where
  "mem_Ping tbl = (None, tbl)"

definition down_Exec :: "string \<Rightarrow> string list \<Rightarrow> User list \<Rightarrow> string option \<times> User list" where
  "down_Exec query args tbl = (Some ''dial tcp 127.0.0.1:3306: connect: connection refused'', tbl)"

definition down_Query :: "string \<Rightarrow> User list \<Rightarrow> (string + (string + User) list) \<times> User list" where
  "down_Query query tbl = (Inl ''dial tcp 127.0.0.1:3306: connect: connection refused'', tbl)"

definition down_Ping :: "User list \<Rightarrow> string option \<times> User list" where
  "down_Ping tbl = (Some ''dial tcp 127.0.0.1:3306: connect: connection refused'', tbl)"

definition ada_json :: string where
  "ada_json = ''{'' @ [CHR 0x22] @ ''id'' @ [CHR 0x22] @ '':7,''
     @ [CHR 0x22] @ ''first_name'' @ [CHR 0x22] @ '':'' @ [CHR 0x22] @ ''Ada'' @ [CHR 0x22] @ '',''
     @ [CHR 0x22] @ ''last_name'' @ [CHR 0x22] @ '':'' @ [CHR 0x22] @ ''Lovelace'' @ [CHR 0x22] @ ''}''"

definition ex_Decode :: "string \<Rightarrow> string + User" where
  "ex_Decode body =
     (if body = ada_json then Inr \<lparr>ID = 7, FirstName = ''Ada'', LastName = ''Lovelace''\<rparr>
      else if body = ''{}'' then Inr \<lparr>ID = 0, FirstName = [], LastName = []\<rparr>
      else if body = [] then Inl ''EOF''
      else Inl ''invalid character in JSON input'')"

fun decimal :: "nat \<Rightarrow> string" where
  "decimal n =
     (if n < 10 then [char_of (48 + n)]
      else decimal (n div 10) @ [char_of (48 + n mod 10)])"

declare decimal.simps [simp del]

definition ex_Marshal_User :: "User \<Rightarrow> string" where
  "ex_Marshal_User u =
     ''{'' @ [CHR 0x22] @ ''id'' @ [CHR 0x22] @ '':''
       @ (if ID u < 0 then ''-'' else []) @ decimal (nat \<bar>ID u\<bar>) @ '',''
       @ [CHR 0x22] @ ''first_name'' @ [CHR 0x22] @ '':'' @ [CHR 0x22] @ FirstName u @ [CHR 0x22] @ '',''
       @ [CHR 0x22] @ ''last_name'' @ [CHR 0x22] @ '':'' @ [CHR 0x22] @ LastName u @ [CHR 0x22] @ ''}''"

definition ex_ParseForm :: "Request \<Rightarrow> string option \<times> (string \<Rightarrow> string list)" where
  "ex_ParseForm r =
     (if Method r = ''POST'' \<and> ContentType r = ''application/x-www-form-urlencoded''
      then
        (if Body r = ''first_name=Ada&last_name=Lovelace''
         then (None, (\<lambda>key. if key = ''first_name'' then [''Ada'']
                             else if key = ''last_name'' then [''Lovelace''] else []))
         else if Body r = ''first_name=Ada''
         then (None, (\<lambda>key. if key = ''first_name'' then [''Ada''] else []))
         else if Body r = ''%zz''
         then (Some (''invalid URL escape '' @ [CHR 0x22] @ ''%zz'' @ [CHR 0x22]), (\<lambda>key. []))
         else (None, (\<lambda>key. [])))
      else (None, (\<lambda>key. [])))"

definition ex_Parse :: "string \<Rightarrow> string + string" where
  "ex_Parse src =
     (if src = ''<form>{{</form>'' then Inl ''template: form.html:1: unclosed action''
      else Inr src)"

definition mem_lib :: "(User list, string) Lib" where
  "mem_lib =
     \<lparr>sql_Exec = mem_Exec, sql_Query = mem_Query, sql_Ping = mem_Ping,
      json_Decode = ex_Decode, json_Marshal_User = ex_Marshal_User,
      request_ParseForm = ex_ParseForm, template_Parse = ex_Parse,
      template_Execute = (\<lambda>t. t)\<rparr>"

definition down_lib :: "(User list, string) Lib" where
  "down_lib =
     \<lparr>sql_Exec = down_Exec, sql_Query = down_Query, sql_Ping = down_Ping,
      json_Decode = ex_Decode, json_Marshal_User = ex_Marshal_User,
      request_ParseForm = ex_ParseForm, template_Parse = ex_Parse,
      template_Execute = (\<lambda>t. t)\<rparr>"

definition empty_db :: "User list DB" where
  "empty_db = \<lparr>conn = [], calls = []\<rparr>"

definition request :: "string \<Rightarrow> string \<Rightarrow> string \<Rightarrow> Request" where
  "request m p b = \<lparr>Method = m, Path = p, RawQuery = [], ContentType = [], Body = b\<rparr>"

definition form_post :: "string \<Rightarrow> Request" where
  "form_post b =
     \<lparr>Method = ''POST'', Path = ''/create'', RawQuery = [],
      ContentType = ''application/x-www-form-urlencoded'', Body = b\<rparr>"

definition no_files :: Disk where
  "no_files = (\<lambda>name. None)"

definition form_disk :: Disk where
  "form_disk = (\<lambda>name. if name = ''form.html'' then Some (Inr ''<form></form>'') else None)"

definition bad_form_disk :: Disk where
  "bad_form_disk = (\<lambda>name. if name = ''form.html'' then Some (Inr ''<form>{{</form>'') else None)"

definition ex_godotenv_Parse :: "string \<Rightarrow> string + (string \<Rightarrow> string option)" where
  "ex_godotenv_Parse src =
     (if src = ''DB_HOST=db.local'' then Inr (\<lambda>key. if key = ''DB_HOST'' then Some ''db.local'' else None)
      else if src = [] then Inr (\<lambda>key. None)
      else Inl ''unexpected character in variable name'')"

definition env_disk :: Disk where
  "env_disk = (\<lambda>name. if name = ''.env'' then Some (Inr ''DB_HOST=db.local'') else None)"

definition malformed_env_disk :: Disk where
  "malformed_env_disk = (\<lambda>name. if name = ''.env'' then Some (Inr ''!'') else None)"

definition unreadable_env_disk :: Disk where
  "unreadable_env_disk =
     (\<lambda>name. if name = ''.env'' then Some (Inl ''open .env: permission denied'') else None)"

definition ex_env :: Environ where
  "ex_env = (\<lambda>key. if key = ''DB_NAME'' then Some ''app'' else None)"

definition ex_OpenFile :: "string \<Rightarrow> OpenFlag set \<Rightarrow> nat \<Rightarrow> string + string" where
  "ex_OpenFile name flags perm = Inr name"

definition denied_OpenFile :: "string \<Rightarrow> OpenFlag set \<Rightarrow> nat \<Rightarrow> string + string" where
  "denied_OpenFile name flags perm = Inl (''open '' @ name @ '': permission denied'')"

definition env_of :: "string \<Rightarrow> string \<Rightarrow> Environ" where
  "env_of key v = (\<lambda>k. if k = key then Some v else None)"

section \<open>Facts about the response writer and the routes\<close>

lemmas writer_defs = Fprintln_def Write_def WriteHeader_def Header_Set_def Header_Del_def
  Header_Get_def http_Error_def StatusCode_def ResponseBody_def new_ResponseWriter_def newline_def

lemma StatusCode_http_Error [simp]:
  "StatusCode (http_Error new_ResponseWriter err code) = code"
  by (simp add: writer_defs)

lemma ResponseBody_http_Error [simp]:
  "ResponseBody (http_Error new_ResponseWriter err code) = err @ newline"
  by (simp add: writer_defs)

lemma route_simps:
  "Method r = ''POST'' \<Longrightarrow> Path r = ''/users'' \<Longrightarrow> route r = Some PostUsers"
  "Method r = ''GET'' \<Longrightarrow> Path r = ''/users'' \<Longrightarrow> route r = Some GetUsers"
  "Method r = ''GET'' \<Longrightarrow> Path r = ''/'' \<Longrightarrow> route r = Some GetRoot"
  "Method r = ''POST'' \<Longrightarrow> Path r = ''/create'' \<Longrightarrow> route r = Some PostCreate"
  "Method r = ''GET'' \<Longrightarrow> Path r = ''/health'' \<Longrightarrow> route r = Some GetHealth"
  "Method r = ''GET'' \<Longrightarrow> Path r = ''/readiness'' \<Longrightarrow> route r = Some GetReadiness"
  by (simp_all add: route_def)

lemma request_simps [simp]:
  "Method (request m p b) = m" "Path (request m p b) = p" "Body (request m p b) = b"
  by (simp_all add: request_def)

lemma form_post_simps [simp]:
  "Method (form_post b) = ''POST''" "Path (form_post b) = ''/create''"
  "ContentType (form_post b) = ''application/x-www-form-urlencoded''" "Body (form_post b) = b"
  by (simp_all add: form_post_def)

section \<open>Liveness and readiness\<close>

text \<open>
  Claim C5, with the body as the handler writes it. For every request to
  GET /health, whatever the library functions do, whatever the disk holds and
  whatever state the database handle is in, the server responds with status 200,
  the body is the line \<open>OK\<close> (the two bytes \<open>OK\<close> and the newline that \<open>Fprintln\<close>
  adds), and the database handle is returned as it was: no statement is issued.
\<close>

theorem health_always_200_OK_line:
  assumes "Method r = ''GET''" and "Path r = ''/health''"
  shows "\<exists>w. serve lib disk db r = Some (Responded w, db)
            \<and> StatusCode w = 200 \<and> ResponseBody w = ''OK'' @ newline"
  using assms by (simp add: serve_def route_simps healthCheckHandler_def writer_defs)

theorem health_always_200_OK_line_witness:
  "\<exists>w. serve down_lib no_files empty_db (request ''GET'' ''/health'' [])
          = Some (Responded w, empty_db)
        \<and> StatusCode w = 200 \<and> ResponseBody w = ''OK'' @ newline"
  using health_always_200_OK_line [of "request ''GET'' ''/health'' []" down_lib no_files empty_db]
  by simp

text \<open>The body of the liveness response is not the bare text \<open>OK\<close>: it has three bytes.\<close>

theorem health_body_counterexample:
  "serve down_lib no_files empty_db (request ''GET'' ''/health'' [])
     = Some (Responded (healthCheckHandler new_ResponseWriter (request ''GET'' ''/health'' [])),
             empty_db)
   \<and> ResponseBody (healthCheckHandler new_ResponseWriter (request ''GET'' ''/health'' [])) \<noteq> ''OK''"
  by (simp add: serve_def route_def request_def healthCheckHandler_def writer_defs)

lemma readiness_ok:
  "sql_Ping lib (conn db) = (None, c) \<Longrightarrow>
   readinessCheckHandler lib db new_ResponseWriter r
     = (Fprintln (WriteHeader 200 new_ResponseWriter) ''OK'',
        \<lparr>conn = c, calls = calls db @ [PingCall]\<rparr>)"
  by (simp add: readinessCheckHandler_def db_Ping_def)

lemma readiness_down:
  "sql_Ping lib (conn db) = (Some e, c) \<Longrightarrow>
   readinessCheckHandler lib db new_ResponseWriter r
     = (Fprintln (WriteHeader 503 new_ResponseWriter) ''Database is not available'',
        \<lparr>conn = c, calls = calls db @ [PingCall]\<rparr>)"
  by (simp add: readinessCheckHandler_def db_Ping_def)

text \<open>
  Claim C4, with the bodies as the handler writes them. For every request to
  GET /readiness the server issues exactly one ping on the database handle and
  always responds (the handler neither panics nor exits): the response is 200
  with the line \<open>OK\<close> exactly when the ping returns no error, and 503 with the line
  \<open>Database is not available\<close> exactly when the ping returns an error. Each body
  ends with the newline that \<open>Fprintln\<close> adds.
\<close>

theorem readiness_reports_ping:
  assumes "Method r = ''GET''" and "Path r = ''/readiness''"
  shows "\<exists>w. serve lib disk db r
               = Some (Responded w,
                       \<lparr>conn = snd (sql_Ping lib (conn db)), calls = calls db @ [PingCall]\<rparr>)
          \<and> ((StatusCode w = 200 \<and> ResponseBody w = ''OK'' @ newline)
               = (fst (sql_Ping lib (conn db)) = None))
          \<and> ((StatusCode w = 503 \<and> ResponseBody w = ''Database is not available'' @ newline)
               = (fst (sql_Ping lib (conn db)) \<noteq> None))"
proof (cases "sql_Ping lib (conn db)")
  case (Pair res c)
  show ?thesis
  proof (cases res)
    case None
    with Pair assms have "serve lib disk db r
        = Some (Responded (Fprintln (WriteHeader 200 new_ResponseWriter) ''OK''),
                \<lparr>conn = c, calls = calls db @ [PingCall]\<rparr>)"
      by (simp add: serve_def route_simps responded_def readiness_ok)
    with Pair None show ?thesis
      by (simp add: writer_defs)
  next
    case (Some e)
    with Pair assms have "serve lib disk db r
        = Some (Responded (Fprintln (WriteHeader 503 new_ResponseWriter) ''Database is not available''),
                \<lparr>conn = c, calls = calls db @ [PingCall]\<rparr>)"
      by (simp add: serve_def route_simps responded_def readiness_down)
    with Pair Some show ?thesis
      by (simp add: writer_defs)
  qed
qed

theorem readiness_reports_ping_witness:
  "(\<exists>w. serve mem_lib no_files empty_db (request ''GET'' ''/readiness'' [])
               = Some (Responded w, \<lparr>conn = [], calls = [PingCall]\<rparr>)
        \<and> StatusCode w = 200 \<and> ResponseBody w = ''OK'' @ newline)
   \<and> (\<exists>w. serve down_lib no_files empty_db (request ''GET'' ''/readiness'' [])
               = Some (Responded w, \<lparr>conn = [], calls = [PingCall]\<rparr>)
        \<and> StatusCode w = 503 \<and> ResponseBody w = ''Database is not available'' @ newline)"
proof -
  let ?r = "request ''GET'' ''/readiness'' []"
  have m: "Method ?r = ''GET''" and p: "Path ?r = ''/readiness''"
    by simp_all
  have up: "sql_Ping mem_lib (conn empty_db) = (None, [])"
    by (simp add: mem_lib_def mem_Ping_def empty_db_def)
  have down: "fst (sql_Ping down_lib (conn empty_db)) \<noteq> None"
    "snd (sql_Ping down_lib (conn empty_db)) = []"
    by (simp_all add: down_lib_def down_Ping_def empty_db_def)
  have c: "calls empty_db = []"
    by (simp add: empty_db_def)
  from readiness_reports_ping [OF m p, of mem_lib no_files empty_db]
    readiness_reports_ping [OF m p, of down_lib no_files empty_db]
  show ?thesis
    by (auto simp add: up down c)
qed

text \<open>
  With a database that answers the ping, and with one that does not, the body is
  not the bare text the claim quotes.
\<close>

theorem readiness_body_counterexample:
  "fst (sql_Ping mem_lib (conn empty_db)) = None
   \<and> serve mem_lib no_files empty_db (request ''GET'' ''/readiness'' [])
       = Some (Responded (Fprintln (WriteHeader 200 new_ResponseWriter) ''OK''),
               \<lparr>conn = [], calls = [PingCall]\<rparr>)
   \<and> ResponseBody (Fprintln (WriteHeader 200 new_ResponseWriter) ''OK'') \<noteq> ''OK''
   \<and> fst (sql_Ping down_lib (conn empty_db)) \<noteq> None
   \<and> serve down_lib no_files empty_db (request ''GET'' ''/readiness'' [])
       = Some (Responded (Fprintln (WriteHeader 503 new_ResponseWriter) ''Database is not available''),
               \<lparr>conn = [], calls = [PingCall]\<rparr>)
   \<and> ResponseBody (Fprintln (WriteHeader 503 new_ResponseWriter) ''Database is not available'')
       \<noteq> ''Database is not available''"
  by (simp add: serve_def route_def request_def responded_def readinessCheckHandler_def db_Ping_def
      mem_lib_def mem_Ping_def down_lib_def down_Ping_def empty_db_def writer_defs)

section \<open>Creating a user from JSON\<close>

text \<open>
  Claim C2. For every request to POST /users whose body the decoder rejects, the
  server responds with status 400 (the body is the decoder's error as a line),
  and the database handle is returned as it was: no statement is issued and the
  connection is unchanged.
\<close>

theorem createUser_malformed_400:
  assumes "Method r = ''POST''" and "Path r = ''/users''"
    and "json_Decode lib (Body r) = Inl err"
  shows "\<exists>w. serve lib disk db r = Some (Responded w, db)
            \<and> StatusCode w = 400 \<and> ResponseBody w = err @ newline"
  using assms by (simp add: serve_def route_simps responded_def createUserHandler_def)

theorem createUser_malformed_400_witness:
  "\<exists>w. serve mem_lib no_files empty_db (request ''POST'' ''/users'' ''{'')
          = Some (Responded w, empty_db)
        \<and> StatusCode w = 400 \<and> ResponseBody w = ''invalid character in JSON input'' @ newline"
  using createUser_malformed_400 [of "request ''POST'' ''/users'' ''{''" mem_lib
      "''invalid character in JSON input''" no_files empty_db]
  by (simp add: mem_lib_def ex_Decode_def ada_json_def)

lemma createUser_decoded:
  "json_Decode lib (Body r) = Inr user \<Longrightarrow>
   sql_Exec lib insertQuery [FirstName user, LastName user] (conn db) = (res, c) \<Longrightarrow>
   createUserHandler lib db new_ResponseWriter r
     = ((case res of None \<Rightarrow> WriteHeader 201 new_ResponseWriter
                   | Some e \<Rightarrow> http_Error new_ResponseWriter e 500),
        \<lparr>conn = c, calls = calls db @ [ExecCall insertQuery [FirstName user, LastName user]]\<rparr>)"
  by (simp add: createUserHandler_def db_Exec_def split: option.splits)

lemma createUser_ignores_ID:
  "createUserHandler (lib\<lparr>json_Decode := \<lambda>b. map_sum (\<lambda>e. e) (\<lambda>u. u\<lparr>ID := i\<rparr>) (json_Decode lib b)\<rparr>) db w r
     = createUserHandler lib db w r"
  by (cases "json_Decode lib (Body r)") (simp_all add: createUserHandler_def db_Exec_def)

text \<open>
  Claim C3. For every request to POST /users whose body decodes to a user, the
  server issues exactly one statement: the insert, with the first and the last name
  of the decoded user as its two arguments. When the insert returns no error the
  response is 201 with an empty body; when it returns an error the response is
  500 and its body is the text of that error, as a line. The \<open>ID\<close> of the decoded
  user has no influence: replacing it by any other number in what the decoder
  returns leaves the response and the database handle the same.
\<close>

theorem createUser_inserts_names_only:
  assumes "Method r = ''POST''" and "Path r = ''/users''"
    and "json_Decode lib (Body r) = Inr user"
  shows "\<exists>w. serve lib disk db r
               = Some (Responded w,
                   \<lparr>conn = snd (sql_Exec lib insertQuery [FirstName user, LastName user] (conn db)),
                    calls = calls db @ [ExecCall insertQuery [FirstName user, LastName user]]\<rparr>)
          \<and> (fst (sql_Exec lib insertQuery [FirstName user, LastName user] (conn db)) = None
                \<longrightarrow> StatusCode w = 201 \<and> ResponseBody w = [])
          \<and> (\<forall>e. fst (sql_Exec lib insertQuery [FirstName user, LastName user] (conn db)) = Some e
                \<longrightarrow> StatusCode w = 500 \<and> ResponseBody w = e @ newline)
          \<and> (\<forall>i. serve (lib\<lparr>json_Decode :=
                            \<lambda>b. map_sum (\<lambda>e. e) (\<lambda>u. u\<lparr>ID := i\<rparr>) (json_Decode lib b)\<rparr>) disk db r
                    = serve lib disk db r)"
proof (cases "sql_Exec lib insertQuery [FirstName user, LastName user] (conn db)")
  case (Pair res c)
  with assms have "serve lib disk db r
      = Some (Responded (case res of None \<Rightarrow> WriteHeader 201 new_ResponseWriter
                                   | Some e \<Rightarrow> http_Error new_ResponseWriter e 500),
              \<lparr>conn = c, calls = calls db @ [ExecCall insertQuery [FirstName user, LastName user]]\<rparr>)"
    by (simp add: serve_def route_simps responded_def createUser_decoded)
  moreover have "StatusCode (WriteHeader 201 new_ResponseWriter) = 201"
    "ResponseBody (WriteHeader 201 new_ResponseWriter) = []"
    by (simp_all add: writer_defs)
  moreover have "\<forall>i. serve (lib\<lparr>json_Decode :=
                            \<lambda>b. map_sum (\<lambda>e. e) (\<lambda>u. u\<lparr>ID := i\<rparr>) (json_Decode lib b)\<rparr>) disk db r
                    = serve lib disk db r"
    using assms(1,2) by (simp add: serve_def route_simps createUser_ignores_ID)
  ultimately show ?thesis using Pair
    by (cases res) simp_all
qed

theorem createUser_inserts_names_only_witness:
  "(\<exists>w. serve mem_lib no_files empty_db (request ''POST'' ''/users'' ada_json)
          = Some (Responded w,
                  \<lparr>conn = [\<lparr>ID = 1, FirstName = ''Ada'', LastName = ''Lovelace''\<rparr>],
                   calls = [ExecCall insertQuery [''Ada'', ''Lovelace'']]\<rparr>)
        \<and> StatusCode w = 201 \<and> ResponseBody w = [])
   \<and> (\<exists>w. serve down_lib no_files empty_db (request ''POST'' ''/users'' ada_json)
          = Some (Responded w,
                  \<lparr>conn = [], calls = [ExecCall insertQuery [''Ada'', ''Lovelace'']]\<rparr>)
        \<and> StatusCode w = 500
        \<and> ResponseBody w = ''dial tcp 127.0.0.1:3306: connect: connection refused'' @ newline)"
proof -
  let ?r = "request ''POST'' ''/users'' ada_json"
  let ?u = "\<lparr>ID = 7, FirstName = ''Ada'', LastName = ''Lovelace''\<rparr>"
  have m: "Method ?r = ''POST''" and p: "Path ?r = ''/users''"
    by simp_all
  have d1: "json_Decode mem_lib (Body ?r) = Inr ?u" and d2: "json_Decode down_lib (Body ?r) = Inr ?u"
    by (simp_all add: mem_lib_def down_lib_def ex_Decode_def)
  have up: "sql_Exec mem_lib insertQuery [''Ada'', ''Lovelace''] (conn empty_db)
      = (None, [\<lparr>ID = 1, FirstName = ''Ada'', LastName = ''Lovelace''\<rparr>])"
    by (simp add: mem_lib_def mem_Exec_def empty_db_def)
  have down: "sql_Exec down_lib insertQuery [''Ada'', ''Lovelace''] (conn empty_db)
      = (Some ''dial tcp 127.0.0.1:3306: connect: connection refused'', [])"
    by (simp add: down_lib_def down_Exec_def empty_db_def)
  have c: "calls empty_db = []"
    by (simp add: empty_db_def)
  from createUser_inserts_names_only [OF m p d1, of no_files empty_db]
    createUser_inserts_names_only [OF m p d2, of no_files empty_db]
  show ?thesis
    by (auto simp add: up down c)
qed

section \<open>Creating a user from the form\<close>

lemma FormValue_missing: "form key = [] \<Longrightarrow> FormValue form key = []"
  by (simp add: FormValue_def)

lemma FormValue_first: "form key = v # vs \<Longrightarrow> FormValue form key = v"
  by (simp add: FormValue_def)

lemma createHandler_result:
  "request_ParseForm lib r = (perr, form) \<Longrightarrow>
   sql_Exec lib insertQuery [FormValue form ''first_name'', FormValue form ''last_name''] (conn db)
     = (res, c) \<Longrightarrow>
   createHandler lib db new_ResponseWriter r
     = ((case res of None \<Rightarrow> http_Redirect new_ResponseWriter r ''/'' 303
                   | Some e \<Rightarrow> http_Error new_ResponseWriter e 500),
        \<lparr>conn = c,
         calls = calls db @ [ExecCall insertQuery
                   [FormValue form ''first_name'', FormValue form ''last_name'']]\<rparr>)"
  by (simp add: createHandler_def db_Exec_def split: option.splits)

lemma Redirect_POST:
  "Method r = ''POST'' \<Longrightarrow>
   StatusCode (http_Redirect new_ResponseWriter r ''/'' 303) = 303
   \<and> Header_Get ''Location'' (http_Redirect new_ResponseWriter r ''/'' 303) = Some ''/''
   \<and> ResponseBody (http_Redirect new_ResponseWriter r ''/'' 303) = []"
  by (simp add: http_Redirect_def writer_defs)

lemma serve_create:
  assumes "Method r = ''POST''" and "Path r = ''/create''"
    and "request_ParseForm lib r = (perr, form)"
    and "sql_Exec lib insertQuery [FormValue form ''first_name'', FormValue form ''last_name'']
           (conn db) = (res, c)"
  shows "serve lib disk db r
     = Some (Responded (case res of None \<Rightarrow> http_Redirect new_ResponseWriter r ''/'' 303
                                  | Some e \<Rightarrow> http_Error new_ResponseWriter e 500),
        \<lparr>conn = c,
         calls = calls db @ [ExecCall insertQuery
                   [FormValue form ''first_name'', FormValue form ''last_name'']]\<rparr>)"
  using assms by (simp add: serve_def route_simps responded_def createHandler_result)

text \<open>
  Claim C6. For every request to POST /create, with \<open>form\<close> the form values after
  \<open>ParseForm\<close>: the server issues exactly one statement, the insert with the values of
  the fields \<open>first_name\<close> and \<open>last_name\<close> as its two arguments, where the value of
  a field is its first value in the form and the empty string when the form has
  none. When the insert returns an error the response is 500; otherwise it is
  303 with the header \<open>Location: /\<close>.
\<close>

theorem create_form_inserts_fields:
  assumes "Method r = ''POST''" and "Path r = ''/create''"
    and "request_ParseForm lib r = (perr, form)"
  shows "\<exists>w. serve lib disk db r
               = Some (Responded w,
                   \<lparr>conn = snd (sql_Exec lib insertQuery
                             [FormValue form ''first_name'', FormValue form ''last_name''] (conn db)),
                    calls = calls db @ [ExecCall insertQuery
                             [FormValue form ''first_name'', FormValue form ''last_name'']]\<rparr>)
          \<and> (fst (sql_Exec lib insertQuery
                     [FormValue form ''first_name'', FormValue form ''last_name''] (conn db)) \<noteq> None
                \<longrightarrow> StatusCode w = 500)
          \<and> (fst (sql_Exec lib insertQuery
                     [FormValue form ''first_name'', FormValue form ''last_name''] (conn db)) = None
                \<longrightarrow> StatusCode w = 303 \<and> Header_Get ''Location'' w = Some ''/'')
          \<and> (\<forall>key. form key = [] \<longrightarrow> FormValue form key = [])
          \<and> (\<forall>key v vs. form key = v # vs \<longrightarrow> FormValue form key = v)"
proof (cases "sql_Exec lib insertQuery
                [FormValue form ''first_name'', FormValue form ''last_name''] (conn db)")
  case (Pair res c)
  note s = serve_create [OF assms Pair, of disk]
  show ?thesis
  proof (cases res)
    case None
    with s Pair Redirect_POST [OF assms(1)] show ?thesis
      by (simp add: FormValue_missing FormValue_first)
  next
    case (Some e)
    with s Pair show ?thesis
      by (simp add: FormValue_missing FormValue_first)
  qed
qed

theorem create_form_inserts_fields_witness:
  "(\<exists>w. serve mem_lib no_files empty_db (form_post ''first_name=Ada'')
          = Some (Responded w,
                  \<lparr>conn = [\<lparr>ID = 1, FirstName = ''Ada'', LastName = []\<rparr>],
                   calls = [ExecCall insertQuery [''Ada'', []]]\<rparr>)
        \<and> StatusCode w = 303 \<and> Header_Get ''Location'' w = Some ''/'')
   \<and> (\<exists>w. serve down_lib no_files empty_db (form_post ''first_name=Ada&last_name=Lovelace'')
          = Some (Responded w,
                  \<lparr>conn = [], calls = [ExecCall insertQuery [''Ada'', ''Lovelace'']]\<rparr>)
        \<and> StatusCode w = 500)"
proof -
  let ?r1 = "form_post ''first_name=Ada''"
  let ?r2 = "form_post ''first_name=Ada&last_name=Lovelace''"
  let ?f1 = "\<lambda>key. if key = ''first_name'' then [''Ada''] else []"
  let ?f2 = "\<lambda>key. if key = ''first_name'' then [''Ada'']
                   else if key = ''last_name'' then [''Lovelace''] else []"
  have m: "Method ?r1 = ''POST''" "Method ?r2 = ''POST''"
    and p: "Path ?r1 = ''/create''" "Path ?r2 = ''/create''"
    by simp_all
  have f1: "request_ParseForm mem_lib ?r1 = (None, ?f1)"
    by (simp add: mem_lib_def ex_ParseForm_def)
  have f2: "request_ParseForm down_lib ?r2 = (None, ?f2)"
    by (simp add: down_lib_def ex_ParseForm_def)
  have v: "FormValue ?f1 ''first_name'' = ''Ada''" "FormValue ?f1 ''last_name'' = []"
    "FormValue ?f2 ''first_name'' = ''Ada''" "FormValue ?f2 ''last_name'' = ''Lovelace''"
    by (simp_all add: FormValue_def)
  have up: "sql_Exec mem_lib insertQuery [''Ada'', []] (conn empty_db)
      = (None, [\<lparr>ID = 1, FirstName = ''Ada'', LastName = []\<rparr>])"
    by (simp add: mem_lib_def mem_Exec_def empty_db_def)
  have down: "sql_Exec down_lib insertQuery [''Ada'', ''Lovelace''] (conn empty_db)
      = (Some ''dial tcp 127.0.0.1:3306: connect: connection refused'', [])"
    by (simp add: down_lib_def down_Exec_def empty_db_def)
  have c: "calls empty_db = []"
    by (simp add: empty_db_def)
  from create_form_inserts_fields [OF m(1) p(1) f1, of no_files empty_db]
  have a: "\<exists>w. serve mem_lib no_files empty_db ?r1
          = Some (Responded w,
                  \<lparr>conn = [\<lparr>ID = 1, FirstName = ''Ada'', LastName = []\<rparr>],
                   calls = [ExecCall insertQuery [''Ada'', []]]\<rparr>)
        \<and> StatusCode w = 303 \<and> Header_Get ''Location'' w = Some ''/''"
    unfolding v up c by auto
  from create_form_inserts_fields [OF m(2) p(2) f2, of no_files empty_db]
  have b: "\<exists>w. serve down_lib no_files empty_db ?r2
          = Some (Responded w,
                  \<lparr>conn = [], calls = [ExecCall insertQuery [''Ada'', ''Lovelace'']]\<rparr>)
        \<and> StatusCode w = 500"
    unfolding v down c by auto
  from a b show ?thesis by simp
qed

text \<open>
  Claim C9. For every request to POST /create, whatever \<open>ParseForm\<close> returns
  as its error: the server responds (it does not panic), and it has issued
  exactly one statement, the insert with the two form values, on the connection
  (the handle returned is the one that \<open>Exec\<close> leaves), a field without a value in
  the form being inserted as the empty string. The status is 500 exactly when the
  insert returns an error and 303 exactly when it returns none, so it is never a
  4xx code. The error of \<open>ParseForm\<close> is discarded: changing it to any other value,
  with the same form, leaves the response and the database handle the same.
\<close>

theorem create_form_no_client_error:
  assumes "Method r = ''POST''" and "Path r = ''/create''"
    and "request_ParseForm lib r = (perr, form)"
  shows "\<exists>w. serve lib disk db r
               = Some (Responded w,
                   \<lparr>conn = snd (sql_Exec lib insertQuery
                             [FormValue form ''first_name'', FormValue form ''last_name''] (conn db)),
                    calls = calls db @ [ExecCall insertQuery
                             [FormValue form ''first_name'', FormValue form ''last_name'']]\<rparr>)
          \<and> serve lib disk db r
               = Some (Responded w,
                   snd (db_Exec lib insertQuery
                          [FormValue form ''first_name'', FormValue form ''last_name''] db))
          \<and> ((StatusCode w = 303)
               = (fst (sql_Exec lib insertQuery
                     [FormValue form ''first_name'', FormValue form ''last_name''] (conn db)) = None))
          \<and> ((StatusCode w = 500)
               = (fst (sql_Exec lib insertQuery
                     [FormValue form ''first_name'', FormValue form ''last_name''] (conn db)) \<noteq> None))
          \<and> (StatusCode w = 303 \<or> StatusCode w = 500)
          \<and> \<not> (400 \<le> StatusCode w \<and> StatusCode w < 500)
          \<and> (\<forall>key. form key = [] \<longrightarrow> FormValue form key = [])
          \<and> (\<forall>perr'. serve (lib\<lparr>request_ParseForm :=
                               \<lambda>q. (perr', snd (request_ParseForm lib q))\<rparr>) disk db r
                       = serve lib disk db r)"
proof (cases "sql_Exec lib insertQuery
                [FormValue form ''first_name'', FormValue form ''last_name''] (conn db)")
  case (Pair res c)
  note s = serve_create [OF assms Pair, of disk]
  have e: "snd (db_Exec lib insertQuery
                  [FormValue form ''first_name'', FormValue form ''last_name''] db)
      = \<lparr>conn = c,
         calls = calls db @ [ExecCall insertQuery
                   [FormValue form ''first_name'', FormValue form ''last_name'']]\<rparr>"
    using Pair by (simp add: db_Exec_def)
  have indep: "\<forall>perr'. serve (lib\<lparr>request_ParseForm :=
                               \<lambda>q. (perr', snd (request_ParseForm lib q))\<rparr>) disk db r
                       = serve lib disk db r"
    using assms by (simp add: serve_def route_simps createHandler_def db_Exec_def)
  show ?thesis
  proof (cases res)
    case None
    with s e Pair Redirect_POST [OF assms(1)] indep show ?thesis
      by (simp add: FormValue_missing)
  next
    case (Some err)
    with s e Pair indep show ?thesis
      by (simp add: FormValue_missing)
  qed
qed

text \<open>
  A url-encoded body with a broken escape: \<open>ParseForm\<close> returns an error and an
  empty form, and the insert runs all the same, with two empty strings.
\<close>

theorem create_form_no_client_error_witness:
  "request_ParseForm mem_lib (form_post ''%zz'')
     = (Some (''invalid URL escape '' @ [CHR 0x22] @ ''%zz'' @ [CHR 0x22]), (\<lambda>key. []))
   \<and> (\<exists>w. serve mem_lib no_files empty_db (form_post ''%zz'')
              = Some (Responded w,
                      \<lparr>conn = [\<lparr>ID = 1, FirstName = [], LastName = []\<rparr>],
                       calls = [ExecCall insertQuery [[], []]]\<rparr>)
            \<and> StatusCode w = 303)
   \<and> (\<exists>w. serve down_lib no_files empty_db (form_post ''%zz'')
              = Some (Responded w, \<lparr>conn = [], calls = [ExecCall insertQuery [[], []]]\<rparr>)
            \<and> StatusCode w = 500)"
proof -
  let ?r = "form_post ''%zz''"
  let ?e = "Some (''invalid URL escape '' @ [CHR 0x22] @ ''%zz'' @ [CHR 0x22])"
  have m: "Method ?r = ''POST''" and p: "Path ?r = ''/create''"
    by simp_all
  have f1: "request_ParseForm mem_lib ?r = (?e, (\<lambda>key. []))"
    by (simp add: mem_lib_def ex_ParseForm_def)
  have f2: "request_ParseForm down_lib ?r = (?e, (\<lambda>key. []))"
    by (simp add: down_lib_def ex_ParseForm_def)
  have v: "FormValue (\<lambda>key. []) ''first_name'' = []" "FormValue (\<lambda>key. []) ''last_name'' = []"
    by (simp_all add: FormValue_def)
  have up: "sql_Exec mem_lib insertQuery [[], []] (conn empty_db)
      = (None, [\<lparr>ID = 1, FirstName = [], LastName = []\<rparr>])"
    by (simp add: mem_lib_def mem_Exec_def empty_db_def)
  have down: "sql_Exec down_lib insertQuery [[], []] (conn empty_db)
      = (Some ''dial tcp 127.0.0.1:3306: connect: connection refused'', [])"
    by (simp add: down_lib_def down_Exec_def empty_db_def)
  have c: "calls empty_db = []"
    by (simp add: empty_db_def)
  from create_form_no_client_error [OF m p f1, of no_files empty_db]
  have a: "\<exists>w. serve mem_lib no_files empty_db ?r
              = Some (Responded w,
                      \<lparr>conn = [\<lparr>ID = 1, FirstName = [], LastName = []\<rparr>],
                       calls = [ExecCall insertQuery [[], []]]\<rparr>)
            \<and> StatusCode w = 303"
    unfolding v up c by auto
  from create_form_no_client_error [OF m p f2, of no_files empty_db]
  have b: "\<exists>w. serve down_lib no_files empty_db ?r
              = Some (Responded w, \<lparr>conn = [], calls = [ExecCall insertQuery [[], []]]\<rparr>)
            \<and> StatusCode w = 500"
    unfolding v down c by auto
  show ?thesis
    by (rule conjI [OF f1 conjI [OF a b]])
qed

section \<open>The form page\<close>

lemma serve_root:
  "Method r = ''GET'' \<Longrightarrow> Path r = ''/'' \<Longrightarrow>
   serve lib disk db r = Some (showFormHandler lib disk new_ResponseWriter r, db)"
  by (simp add: serve_def route_simps)

text \<open>
  Claim C10. For every request to GET /, with the disk as it is when the request
  is served: when \<open>form.html\<close> is missing, cannot be read, or does not parse, the
  handler panics with that error and writes no response; when it parses, the
  handler responds with what executing the template writes. The outcome is
  determined by \<open>form.html\<close> on the disk at the time of the request: the server keeps
  no parsed template (the database handle is all it carries from one request to
  the next), so the file is read and parsed for each request.
\<close>

theorem showForm_parses_on_every_request:
  assumes "Method r = ''GET''" and "Path r = ''/''"
  shows "(disk ''form.html'' = None \<longrightarrow>
            serve lib disk db r
              = Some (Panicked ''open form.html: no such file or directory'', db))
       \<and> (\<forall>err. disk ''form.html'' = Some (Inl err) \<longrightarrow>
            serve lib disk db r = Some (Panicked err, db))
       \<and> (\<forall>src err. disk ''form.html'' = Some (Inr src) \<and> template_Parse lib src = Inl err \<longrightarrow>
            serve lib disk db r = Some (Panicked err, db))
       \<and> (\<forall>src t. disk ''form.html'' = Some (Inr src) \<and> template_Parse lib src = Inr t \<longrightarrow>
            serve lib disk db r
              = Some (Responded (Write (template_Execute lib t) new_ResponseWriter), db))
       \<and> (\<forall>disk'. disk' ''form.html'' = disk ''form.html'' \<longrightarrow>
            serve lib disk' db r = serve lib disk db r)"
proof -
  note s = serve_root [OF assms]
  have a: "disk ''form.html'' = None \<longrightarrow>
            serve lib disk db r
              = Some (Panicked ''open form.html: no such file or directory'', db)"
    by (simp add: s showFormHandler_def template_ParseFiles_def os_ReadFile_def)
  have b: "\<forall>err. disk ''form.html'' = Some (Inl err) \<longrightarrow>
            serve lib disk db r = Some (Panicked err, db)"
    by (simp add: s showFormHandler_def template_ParseFiles_def os_ReadFile_def)
  have c: "\<forall>src err. disk ''form.html'' = Some (Inr src) \<and> template_Parse lib src = Inl err \<longrightarrow>
            serve lib disk db r = Some (Panicked err, db)"
    by (simp add: s showFormHandler_def template_ParseFiles_def os_ReadFile_def)
  have d: "\<forall>src t. disk ''form.html'' = Some (Inr src) \<and> template_Parse lib src = Inr t \<longrightarrow>
            serve lib disk db r
              = Some (Responded (Write (template_Execute lib t) new_ResponseWriter), db)"
    by (simp add: s showFormHandler_def template_ParseFiles_def os_ReadFile_def)
  have e: "\<forall>disk'. disk' ''form.html'' = disk ''form.html'' \<longrightarrow>
            serve lib disk' db r = serve lib disk db r"
    by (simp add: serve_root [OF assms] showFormHandler_def template_ParseFiles_def os_ReadFile_def)
  show ?thesis
    by (rule conjI [OF a conjI [OF b conjI [OF c conjI [OF d e]]]])
qed

theorem showForm_parses_on_every_request_witness:
  "serve mem_lib form_disk empty_db (request ''GET'' ''/'' [])
     = Some (Responded (Write ''<form></form>'' new_ResponseWriter), empty_db)
   \<and> serve mem_lib no_files empty_db (request ''GET'' ''/'' [])
     = Some (Panicked ''open form.html: no such file or directory'', empty_db)
   \<and> serve mem_lib bad_form_disk empty_db (request ''GET'' ''/'' [])
     = Some (Panicked ''template: form.html:1: unclosed action'', empty_db)"
proof -
  let ?r = "request ''GET'' ''/'' []"
  have m: "Method ?r = ''GET''" and p: "Path ?r = ''/''"
    by simp_all
  have f: "form_disk ''form.html'' = Some (Inr ''<form></form>'')"
    "template_Parse mem_lib ''<form></form>'' = Inr ''<form></form>''"
    "template_Execute mem_lib ''<form></form>'' = ''<form></form>''"
    by (simp_all add: form_disk_def mem_lib_def ex_Parse_def)
  have n: "no_files ''form.html'' = None"
    by (simp add: no_files_def)
  have b: "bad_form_disk ''form.html'' = Some (Inr ''<form>{{</form>'')"
    "template_Parse mem_lib ''<form>{{</form>'' = Inl ''template: form.html:1: unclosed action''"
    by (simp_all add: bad_form_disk_def mem_lib_def ex_Parse_def)
  note t1 = showForm_parses_on_every_request [OF m p, of form_disk mem_lib empty_db]
  note t2 = showForm_parses_on_every_request [OF m p, of no_files mem_lib empty_db]
  note t3 = showForm_parses_on_every_request [OF m p, of bad_form_disk mem_lib empty_db]
  have 1: "serve mem_lib form_disk empty_db ?r
     = Some (Responded (Write ''<form></form>'' new_ResponseWriter), empty_db)"
    using t1 [THEN conjunct2, THEN conjunct2, THEN conjunct2, THEN conjunct1, rule_format,
        OF conjI, OF f(1) f(2)]
    by (simp only: f(3))
  have 2: "serve mem_lib no_files empty_db ?r
     = Some (Panicked ''open form.html: no such file or directory'', empty_db)"
    by (rule t2 [THEN conjunct1, rule_format, OF n])
  have 3: "serve mem_lib bad_form_disk empty_db ?r
     = Some (Panicked ''template: form.html:1: unclosed action'', empty_db)"
    by (rule t3 [THEN conjunct2, THEN conjunct2, THEN conjunct1, rule_format, OF conjI, OF b(1) b(2)])
  show ?thesis
    by (rule conjI [OF 1 conjI [OF 2 3]])
qed

section \<open>Listing the users\<close>

lemma getUsers_no_rows:
  assumes "sql_Query lib ''SELECT id, first_name, last_name FROM users'' (conn db) = (Inr [], c)"
  shows "getUsersHandler lib db new_ResponseWriter r
     = (Write (''null'' @ newline)
          (Header_Set ''Content-Type'' ''application/json'' new_ResponseWriter),
        \<lparr>conn = c, calls = calls db @ [QueryCall ''SELECT id, first_name, last_name FROM users'']\<rparr>)"
  using assms
  by (simp add: getUsersHandler_def db_Query_def json_Encode_def json_Marshal_slice_def)

lemma mem_Query_empty:
  "sql_Query mem_lib q (conn empty_db) = (Inr [], [])"
  by (simp add: mem_lib_def mem_Query_def empty_db_def)

text \<open>
  Claim C1 fails on the code. For GET /users on a database whose query succeeds
  with no rows, the server responds with status 200 and the content type
  \<open>application/json\<close>, but the body is the JSON value \<open>null\<close> (and a newline), not
  the empty array: \<open>users\<close> is declared as a nil slice, no row is appended, and the
  encoder writes a nil slice as \<open>null\<close>.
\<close>

theorem getUsers_empty_table_writes_null:
  "serve mem_lib no_files empty_db (request ''GET'' ''/users'' [])
     = Some (Responded
               (Write (''null'' @ newline)
                  (Header_Set ''Content-Type'' ''application/json'' new_ResponseWriter)),
             \<lparr>conn = [], calls = [QueryCall ''SELECT id, first_name, last_name FROM users'']\<rparr>)
   \<and> StatusCode (Write (''null'' @ newline)
                  (Header_Set ''Content-Type'' ''application/json'' new_ResponseWriter)) = 200
   \<and> ResponseBody (Write (''null'' @ newline)
                  (Header_Set ''Content-Type'' ''application/json'' new_ResponseWriter)) = ''null'' @ newline
   \<and> ResponseBody (Write (''null'' @ newline)
                  (Header_Set ''Content-Type'' ''application/json'' new_ResponseWriter)) \<noteq> ''[]'' @ newline"
proof -
  have "serve mem_lib no_files empty_db (request ''GET'' ''/users'' [])
     = Some (Responded
               (Write (''null'' @ newline)
                  (Header_Set ''Content-Type'' ''application/json'' new_ResponseWriter)),
             \<lparr>conn = [], calls = [QueryCall ''SELECT id, first_name, last_name FROM users'']\<rparr>)"
    using getUsers_no_rows [OF mem_Query_empty, of "request ''GET'' ''/users'' []"]
    by (simp add: serve_def route_simps responded_def empty_db_def)
  then show ?thesis
    by (simp add: writer_defs)
qed

text \<open>With one row in the table the same handler writes a JSON array.\<close>

lemma getUsers_one_row_array:
  "\<exists>w. serve mem_lib no_files
          \<lparr>conn = [\<lparr>ID = 1, FirstName = ''Ada'', LastName = ''Lovelace''\<rparr>], calls = []\<rparr>
          (request ''GET'' ''/users'' [])
        = Some (Responded w,
            \<lparr>conn = [\<lparr>ID = 1, FirstName = ''Ada'', LastName = ''Lovelace''\<rparr>],
             calls = [QueryCall ''SELECT id, first_name, last_name FROM users'']\<rparr>)
      \<and> StatusCode w = 200
      \<and> ResponseBody w
          = ''['' @ ex_Marshal_User \<lparr>ID = 1, FirstName = ''Ada'', LastName = ''Lovelace''\<rparr> @ '']'' @ newline"
  by (simp add: serve_def route_def request_def responded_def getUsersHandler_def db_Query_def
      mem_lib_def mem_Query_def append_slice_def json_Encode_def json_Marshal_slice_def writer_defs)

section \<open>Loading the configuration\<close>

lemma loadConfig_error_nil: "snd (fst (loadConfig parse disk env)) = None"
  by (simp add: loadConfig_def split: prod.splits option.splits)

lemma loadConfig_load_failed:
  "godotenv_Load parse disk env ''.env'' = (Some err, env') \<Longrightarrow>
   loadConfig parse disk env = ((zero_Config, None), env')"
  by (simp add: loadConfig_def)

lemma Load_absent:
  "disk name = None \<Longrightarrow>
   godotenv_Load parse disk env name
     = (Some (''open '' @ name @ '': no such file or directory''), env)"
  by (simp add: godotenv_Load_def os_ReadFile_def)

lemma Load_unreadable:
  "disk name = Some (Inl err) \<Longrightarrow> godotenv_Load parse disk env name = (Some err, env)"
  by (simp add: godotenv_Load_def os_ReadFile_def)

lemma Load_malformed:
  "disk name = Some (Inr src) \<Longrightarrow> parse src = Inl err \<Longrightarrow>
   godotenv_Load parse disk env name = (Some err, env)"
  by (simp add: godotenv_Load_def os_ReadFile_def)

text \<open>
  Claim C7, as the code has it. \<open>loadConfig\<close> never returns an error. When the file
  \<open>.env\<close> is absent, cannot be read, or is rejected by the parser, the
  configuration returned has all five fields empty and the environment is
  unchanged. When the file is read and parsed, the five fields are the values of
  \<open>DB_USERNAME\<close>, \<open>DB_PASSWORD\<close>, \<open>DB_HOST\<close>, \<open>DB_PORT\<close> and \<open>DB_NAME\<close> in the
  environment that \<open>Load\<close> leaves, in which every variable that was set before
  keeps its value.
\<close>

theorem loadConfig_never_fails:
  "snd (fst (loadConfig parse disk env)) = None
   \<and> (disk ''.env'' = None \<longrightarrow> loadConfig parse disk env = ((zero_Config, None), env))
   \<and> (\<forall>err. disk ''.env'' = Some (Inl err) \<longrightarrow>
         loadConfig parse disk env = ((zero_Config, None), env))
   \<and> (\<forall>src err. disk ''.env'' = Some (Inr src) \<and> parse src = Inl err \<longrightarrow>
         loadConfig parse disk env = ((zero_Config, None), env))
   \<and> (\<forall>src envMap. disk ''.env'' = Some (Inr src) \<and> parse src = Inr envMap \<longrightarrow>
         fst (fst (loadConfig parse disk env))
           = \<lparr>DBUsername = os_Getenv (snd (loadConfig parse disk env)) ''DB_USERNAME'',
              DBPassword = os_Getenv (snd (loadConfig parse disk env)) ''DB_PASSWORD'',
              DBHost = os_Getenv (snd (loadConfig parse disk env)) ''DB_HOST'',
              DBPort = os_Getenv (snd (loadConfig parse disk env)) ''DB_PORT'',
              DBName = os_Getenv (snd (loadConfig parse disk env)) ''DB_NAME''\<rparr>
         \<and> (\<forall>key v. env key = Some v \<longrightarrow> snd (loadConfig parse disk env) key = Some v))"
proof -
  have a: "disk ''.env'' = None \<longrightarrow> loadConfig parse disk env = ((zero_Config, None), env)"
    by (simp add: loadConfig_load_failed Load_absent)
  have b: "\<forall>err. disk ''.env'' = Some (Inl err) \<longrightarrow>
         loadConfig parse disk env = ((zero_Config, None), env)"
    by (simp add: loadConfig_load_failed Load_unreadable)
  have c: "\<forall>src err. disk ''.env'' = Some (Inr src) \<and> parse src = Inl err \<longrightarrow>
         loadConfig parse disk env = ((zero_Config, None), env)"
    by (simp add: loadConfig_load_failed Load_malformed)
  have d: "\<forall>src envMap. disk ''.env'' = Some (Inr src) \<and> parse src = Inr envMap \<longrightarrow>
         fst (fst (loadConfig parse disk env))
           = \<lparr>DBUsername = os_Getenv (snd (loadConfig parse disk env)) ''DB_USERNAME'',
              DBPassword = os_Getenv (snd (loadConfig parse disk env)) ''DB_PASSWORD'',
              DBHost = os_Getenv (snd (loadConfig parse disk env)) ''DB_HOST'',
              DBPort = os_Getenv (snd (loadConfig parse disk env)) ''DB_PORT'',
              DBName = os_Getenv (snd (loadConfig parse disk env)) ''DB_NAME''\<rparr>
         \<and> (\<forall>key v. env key = Some v \<longrightarrow> snd (loadConfig parse disk env) key = Some v)"
    by (simp add: loadConfig_def godotenv_Load_def os_ReadFile_def)
  show ?thesis
    by (rule conjI [OF loadConfig_error_nil conjI [OF a conjI [OF b conjI [OF c d]]]])
qed

theorem loadConfig_never_fails_witness:
  "loadConfig ex_godotenv_Parse no_files ex_env = ((zero_Config, None), ex_env)
   \<and> fst (loadConfig ex_godotenv_Parse env_disk ex_env)
       = (\<lparr>DBUsername = [], DBPassword = [], DBHost = ''db.local'', DBPort = [],
            DBName = ''app''\<rparr>, None)"
proof -
  note t1 = loadConfig_never_fails [of ex_godotenv_Parse no_files ex_env]
  note t2 = loadConfig_never_fails [of ex_godotenv_Parse env_disk ex_env]
  have n: "no_files ''.env'' = None"
    by (simp add: no_files_def)
  have f: "env_disk ''.env'' = Some (Inr ''DB_HOST=db.local'')"
    "ex_godotenv_Parse ''DB_HOST=db.local''
       = Inr (\<lambda>key. if key = ''DB_HOST'' then Some ''db.local'' else None)"
    by (simp_all add: env_disk_def ex_godotenv_Parse_def)
  have e: "snd (loadConfig ex_godotenv_Parse env_disk ex_env)
      = (\<lambda>key. case ex_env key of
                  Some v \<Rightarrow> Some v
                | None \<Rightarrow>
                    (case (if key = ''DB_HOST'' then Some ''db.local'' else None) of
                       None \<Rightarrow> None
                     | Some v \<Rightarrow> os_Setenv key v ex_env key))"
    by (simp add: loadConfig_def godotenv_Load_def os_ReadFile_def f)
  have g: "os_Getenv (snd (loadConfig ex_godotenv_Parse env_disk ex_env)) ''DB_USERNAME'' = []"
    "os_Getenv (snd (loadConfig ex_godotenv_Parse env_disk ex_env)) ''DB_PASSWORD'' = []"
    "os_Getenv (snd (loadConfig ex_godotenv_Parse env_disk ex_env)) ''DB_HOST'' = ''db.local''"
    "os_Getenv (snd (loadConfig ex_godotenv_Parse env_disk ex_env)) ''DB_PORT'' = []"
    "os_Getenv (snd (loadConfig ex_godotenv_Parse env_disk ex_env)) ''DB_NAME'' = ''app''"
    unfolding e by (simp_all add: os_Getenv_def ex_env_def os_Setenv_def)
  have 1: "loadConfig ex_godotenv_Parse no_files ex_env = ((zero_Config, None), ex_env)"
    by (rule t1 [THEN conjunct2, THEN conjunct1, rule_format, OF n])
  have "fst (fst (loadConfig ex_godotenv_Parse env_disk ex_env))
       = \<lparr>DBUsername = [], DBPassword = [], DBHost = ''db.local'', DBPort = [],
            DBName = ''app''\<rparr>"
    using t2 [THEN conjunct2, THEN conjunct2, THEN conjunct2, THEN conjunct2, rule_format,
        OF conjI, OF f(1) f(2), THEN conjunct1]
    by (simp only: g)
  with t2 [THEN conjunct1]
  have 2: "fst (loadConfig ex_godotenv_Parse env_disk ex_env)
       = (\<lparr>DBUsername = [], DBPassword = [], DBHost = ''db.local'', DBPort = [],
            DBName = ''app''\<rparr>, None)"
    by (simp add: prod_eq_iff)
  show ?thesis
    by (rule conjI [OF 1 2])
qed

text \<open>
  A file \<open>.env\<close> that is present does not suffice: with a file the parser rejects,
  and with a file that cannot be read, \<open>DB_NAME\<close> is set in the environment and the
  field \<open>DBName\<close> is empty all the same.
\<close>

theorem loadConfig_present_file_counterexample:
  "malformed_env_disk ''.env'' = Some (Inr ''!'')
   \<and> os_Getenv (snd (loadConfig ex_godotenv_Parse malformed_env_disk ex_env)) ''DB_NAME'' = ''app''
   \<and> DBName (fst (fst (loadConfig ex_godotenv_Parse malformed_env_disk ex_env))) = []
   \<and> unreadable_env_disk ''.env'' = Some (Inl ''open .env: permission denied'')
   \<and> os_Getenv (snd (loadConfig ex_godotenv_Parse unreadable_env_disk ex_env)) ''DB_NAME'' = ''app''
   \<and> DBName (fst (fst (loadConfig ex_godotenv_Parse unreadable_env_disk ex_env))) = []
   \<and> DBName (fst (fst (loadConfig ex_godotenv_Parse malformed_env_disk ex_env)))
       \<noteq> os_Getenv (snd (loadConfig ex_godotenv_Parse malformed_env_disk ex_env)) ''DB_NAME''"
  by (simp add: loadConfig_def godotenv_Load_def os_ReadFile_def malformed_env_disk_def
      unreadable_env_disk_def ex_godotenv_Parse_def ex_env_def os_Getenv_def zero_Config_def)

section \<open>Choosing the log destination\<close>

lemmas logging_defs = main_logging_def setupFileLogging_def setupStdoutLogging_def
  log_Fatal_def log_Println_def log_SetOutput_def

lemma Getenv_unset: "env key = None \<Longrightarrow> os_Getenv env key = []"
  by (simp add: os_Getenv_def)

text \<open>
  Claim C8. The switch at the start of \<open>main\<close> reads \<open>LOG_DESTINATION\<close>. For the
  value \<open>file\<close> it opens \<open>app.log\<close> with the flags create, write-only and append
  (permission 0666): when the open succeeds the log output becomes that file, and
  when it fails the error is logged and the process exits with status 1. For the
  value \<open>stdout\<close> the log output becomes standard output and nothing is logged.
  For every other value, and when the variable is not set, the warning is logged
  (to the output in use until then) and the log output becomes standard output.
\<close>

theorem logging_destination_selected:
  "(os_Getenv env ''LOG_DESTINATION'' = ''file'' \<longrightarrow>
      (\<forall>f. openFile ''app.log'' {O_CREATE, O_WRONLY, O_APPEND} 438 = Inr f \<longrightarrow>
         main_logging openFile env p = Running (p\<lparr>logOutput := FileWriter f\<rparr>))
    \<and> (\<forall>err. openFile ''app.log'' {O_CREATE, O_WRONLY, O_APPEND} 438 = Inl err \<longrightarrow>
         main_logging openFile env p
           = Exited 1 (p\<lparr>logged := logged p @ [(logOutput p, ''Error opening log file:'' @ err)]\<rparr>)))
   \<and> (os_Getenv env ''LOG_DESTINATION'' = ''stdout'' \<longrightarrow>
        main_logging openFile env p = Running (p\<lparr>logOutput := Stdout\<rparr>))
   \<and> (os_Getenv env ''LOG_DESTINATION'' \<noteq> ''file''
        \<and> os_Getenv env ''LOG_DESTINATION'' \<noteq> ''stdout'' \<longrightarrow>
        main_logging openFile env p
          = Running (p\<lparr>logged := logged p @
                         [(logOutput p, ''Invalid logging destination specified. Defaulting to stdout.'')],
                       logOutput := Stdout\<rparr>))
   \<and> (env ''LOG_DESTINATION'' = None \<longrightarrow>
        main_logging openFile env p
          = Running (p\<lparr>logged := logged p @
                         [(logOutput p, ''Invalid logging destination specified. Defaulting to stdout.'')],
                       logOutput := Stdout\<rparr>))"
proof -
  have a: "os_Getenv env ''LOG_DESTINATION'' = ''file'' \<longrightarrow>
      (\<forall>f. openFile ''app.log'' {O_CREATE, O_WRONLY, O_APPEND} 438 = Inr f \<longrightarrow>
         main_logging openFile env p = Running (p\<lparr>logOutput := FileWriter f\<rparr>))
    \<and> (\<forall>err. openFile ''app.log'' {O_CREATE, O_WRONLY, O_APPEND} 438 = Inl err \<longrightarrow>
         main_logging openFile env p
           = Exited 1 (p\<lparr>logged := logged p @ [(logOutput p, ''Error opening log file:'' @ err)]\<rparr>))"
    by (simp add: logging_defs)
  have b: "os_Getenv env ''LOG_DESTINATION'' = ''stdout'' \<longrightarrow>
        main_logging openFile env p = Running (p\<lparr>logOutput := Stdout\<rparr>)"
    by (simp add: logging_defs)
  have c: "os_Getenv env ''LOG_DESTINATION'' \<noteq> ''file''
        \<and> os_Getenv env ''LOG_DESTINATION'' \<noteq> ''stdout'' \<longrightarrow>
        main_logging openFile env p
          = Running (p\<lparr>logged := logged p @
                         [(logOutput p, ''Invalid logging destination specified. Defaulting to stdout.'')],
                       logOutput := Stdout\<rparr>)"
    by (simp add: logging_defs)
  have d: "env ''LOG_DESTINATION'' = None \<longrightarrow>
        main_logging openFile env p
          = Running (p\<lparr>logged := logged p @
                         [(logOutput p, ''Invalid logging destination specified. Defaulting to stdout.'')],
                       logOutput := Stdout\<rparr>)"
    by (simp add: logging_defs Getenv_unset)
  show ?thesis
    by (rule conjI [OF a conjI [OF b conjI [OF c d]]])
qed

theorem logging_destination_selected_witness:
  "main_logging ex_OpenFile (env_of ''LOG_DESTINATION'' ''file'') start_Process
     = Running \<lparr>logOutput = FileWriter ''app.log'', logged = []\<rparr>
   \<and> main_logging denied_OpenFile (env_of ''LOG_DESTINATION'' ''file'') start_Process
     = Exited 1 \<lparr>logOutput = Stderr,
                 logged = [(Stderr, ''Error opening log file:open app.log: permission denied'')]\<rparr>
   \<and> main_logging denied_OpenFile (env_of ''LOG_DESTINATION'' ''stdout'') start_Process
     = Running \<lparr>logOutput = Stdout, logged = []\<rparr>
   \<and> main_logging denied_OpenFile (env_of ''LOG_DESTINATION'' ''syslog'') start_Process
     = Running \<lparr>logOutput = Stdout,
                logged = [(Stderr, ''Invalid logging destination specified. Defaulting to stdout.'')]\<rparr>
   \<and> main_logging denied_OpenFile (env_of ''PORT'' ''8000'') start_Process
     = Running \<lparr>logOutput = Stdout,
                logged = [(Stderr, ''Invalid logging destination specified. Defaulting to stdout.'')]\<rparr>"
proof -
  have g: "os_Getenv (env_of ''LOG_DESTINATION'' ''file'') ''LOG_DESTINATION'' = ''file''"
    "os_Getenv (env_of ''LOG_DESTINATION'' ''stdout'') ''LOG_DESTINATION'' = ''stdout''"
    "os_Getenv (env_of ''LOG_DESTINATION'' ''syslog'') ''LOG_DESTINATION'' \<noteq> ''file''
       \<and> os_Getenv (env_of ''LOG_DESTINATION'' ''syslog'') ''LOG_DESTINATION'' \<noteq> ''stdout''"
    "env_of ''PORT'' ''8000'' ''LOG_DESTINATION'' = None"
    by (simp_all add: os_Getenv_def env_of_def)
  have o: "ex_OpenFile ''app.log'' {O_CREATE, O_WRONLY, O_APPEND} 438 = Inr ''app.log''"
    "denied_OpenFile ''app.log'' {O_CREATE, O_WRONLY, O_APPEND} 438
       = Inl ''open app.log: permission denied''"
    by (simp_all add: ex_OpenFile_def denied_OpenFile_def)
  have 1: "main_logging ex_OpenFile (env_of ''LOG_DESTINATION'' ''file'') start_Process
     = Running \<lparr>logOutput = FileWriter ''app.log'', logged = []\<rparr>"
    using logging_destination_selected [of "env_of ''LOG_DESTINATION'' ''file''" ex_OpenFile
        start_Process, THEN conjunct1, rule_format, OF g(1), THEN conjunct1, rule_format, OF o(1)]
    by (simp add: start_Process_def)
  have 2: "main_logging denied_OpenFile (env_of ''LOG_DESTINATION'' ''file'') start_Process
     = Exited 1 \<lparr>logOutput = Stderr,
                 logged = [(Stderr, ''Error opening log file:open app.log: permission denied'')]\<rparr>"
    using logging_destination_selected [of "env_of ''LOG_DESTINATION'' ''file''" denied_OpenFile
        start_Process, THEN conjunct1, rule_format, OF g(1), THEN conjunct2, rule_format, OF o(2)]
    by (simp add: start_Process_def)
  have 3: "main_logging denied_OpenFile (env_of ''LOG_DESTINATION'' ''stdout'') start_Process
     = Running \<lparr>logOutput = Stdout, logged = []\<rparr>"
    using logging_destination_selected [of "env_of ''LOG_DESTINATION'' ''stdout''" denied_OpenFile
        start_Process, THEN conjunct2, THEN conjunct1, rule_format, OF g(2)]
    by (simp add: start_Process_def)
  have 4: "main_logging denied_OpenFile (env_of ''LOG_DESTINATION'' ''syslog'') start_Process
     = Running \<lparr>logOutput = Stdout,
                logged = [(Stderr, ''Invalid logging destination specified. Defaulting to stdout.'')]\<rparr>"
    using logging_destination_selected [of "env_of ''LOG_DESTINATION'' ''syslog''" denied_OpenFile
        start_Process, THEN conjunct2, THEN conjunct2, THEN conjunct1, rule_format, OF g(3)]
    by (simp add: start_Process_def)
  have 5: "main_logging denied_OpenFile (env_of ''PORT'' ''8000'') start_Process
     = Running \<lparr>logOutput = Stdout,
                logged = [(Stderr, ''Invalid logging destination specified. Defaulting to stdout.'')]\<rparr>"
    using logging_destination_selected [of "env_of ''PORT'' ''8000''" denied_OpenFile
        start_Process, THEN conjunct2, THEN conjunct2, THEN conjunct2, rule_format, OF g(4)]
    by (simp add: start_Process_def)
  show ?thesis
    by (rule conjI [OF 1 conjI [OF 2 conjI [OF 3 conjI [OF 4 5]]]])
qed

end
